theory Spec2Isabelle
  imports Main "HOL-Library.Sublist"
begin

section \<open>Data model of open\_prs.py\<close>

text \<open>
  A value of the settings document. The recognised keys hold arrays of strings
  (\<open>usernames\<close>, \<open>repos\<close>) or a plain string (\<open>github_token\<close>); both shapes are kept,
  since the script never checks which one it got.
\<close>

datatype toml_value = TomlString string | TomlArray "string list"

text \<open>The settings document returned by \<open>toml.load\<close>: a dict, in file order.\<close>

type_synonym toml_doc = "(string \<times> toml_value) list"

text \<open>One node of \<open>pullRequests.nodes\<close> in the GraphQL response.\<close>

record repository =
  id_field :: string
  nameWithOwner :: string

record pull_request =
  repository :: repository
  createdAt :: string
  number :: int
  title :: string
  url :: string

section \<open>Membership and the pull request filter\<close>

text \<open>
  Python's \<open>x in xs\<close> on a list: a scan from the left comparing with \<open>==\<close>.
\<close>

fun list_contains :: "string \<Rightarrow> string list \<Rightarrow> bool" where
  "list_contains x [] = False"
| "list_contains x (y # ys) = (if x = y then True else list_contains x ys)"

text \<open>
  \<open>x in repos\<close> for a string \<open>x\<close>: membership in an array, substring test in a string.
\<close>

fun py_in :: "string \<Rightarrow> toml_value \<Rightarrow> bool" where
  "py_in x (TomlArray xs) = list_contains x xs"
| "py_in x (TomlString s) = sublist x s"

text \<open>
  \<open>filter_prs_by_repos\<close>: the list comprehension
  \<open>[pr for pr in pull_requests if pr['repository']['nameWithOwner'] in repos]\<close>.
\<close>

fun filter_prs_by_repos :: "pull_request list \<Rightarrow> toml_value \<Rightarrow> pull_request list" where
  "filter_prs_by_repos [] repos = []"
| "filter_prs_by_repos (pull_request # pull_requests) repos =
     (if py_in (nameWithOwner (repository pull_request)) repos
      then pull_request # filter_prs_by_repos pull_requests repos
      else filter_prs_by_repos pull_requests repos)"

section \<open>Dates and durations\<close>

text \<open>
  What can go wrong inside the library calls the script makes, none of which it catches.
\<close>

datatype error =
    TypeError
  | OverflowError
  | ParserError
  | TomlDecodeError
  | OSError
  | TransportError

text \<open>
  \<open>datetime.timedelta\<close>: days, seconds and microseconds, kept normalised
  (\<open>0 \<le> seconds < 86400\<close>, \<open>0 \<le> microseconds < 1000000\<close>).
\<close>

record timedelta =
  td_days :: int
  td_seconds :: int
  td_microseconds :: int

definition timedelta_norm :: "int \<Rightarrow> int \<Rightarrow> int \<Rightarrow> timedelta" where
  "timedelta_norm d s us =
     (let s1 = s + us div 1000000;
          us1 = us mod 1000000;
          d1 = d + s1 div 86400;
          s2 = s1 mod 86400
      in \<lparr>td_days = d1, td_seconds = s2, td_microseconds = us1\<rparr>)"

text \<open>
  The constructor \<open>timedelta(days, seconds, microseconds)\<close> on integers: it carries
  into the larger unit and refuses more than 999999999 days.
\<close>

definition timedelta_new :: "int \<Rightarrow> int \<Rightarrow> int \<Rightarrow> error + timedelta" where
  "timedelta_new d s us =
     (let t = timedelta_norm d s us
      in if \<bar>td_days t\<bar> > 999999999 then Inl OverflowError else Inr t)"

definition timedelta_add :: "timedelta \<Rightarrow> timedelta \<Rightarrow> error + timedelta" where
  "timedelta_add a b =
     timedelta_new (td_days a + td_days b) (td_seconds a + td_seconds b)
       (td_microseconds a + td_microseconds b)"

definition timedelta_sub :: "timedelta \<Rightarrow> timedelta \<Rightarrow> error + timedelta" where
  "timedelta_sub a b =
     timedelta_new (td_days a - td_days b) (td_seconds a - td_seconds b)
       (td_microseconds a - td_microseconds b)"

text \<open>\<open>a > b\<close> on durations compares the triples lexicographically.\<close>

definition timedelta_gt :: "timedelta \<Rightarrow> timedelta \<Rightarrow> bool" where
  "timedelta_gt a b \<longleftrightarrow>
     td_days a > td_days b
     \<or> (td_days a = td_days b
        \<and> (td_seconds a > td_seconds b
           \<or> (td_seconds a = td_seconds b \<and> td_microseconds a > td_microseconds b)))"

text \<open>
  \<open>datetime.datetime\<close>: the calendar date as its proleptic Gregorian ordinal
  (\<open>toordinal()\<close>), the wall-clock fields, and \<open>utcoffset()\<close>, which is \<open>None\<close> for a
  naive value.
\<close>

record datetime =
  ordinal :: int
  hour :: int
  minute :: int
  second :: int
  microsecond :: int
  utcoffset :: "timedelta option"

definition seconds_of_day :: "datetime \<Rightarrow> int" where
  "seconds_of_day dt = second dt + minute dt * 60 + hour dt * 3600"

text \<open>
  \<open>self - other\<close> on two datetimes. The wall-clock difference is taken first; equal
  offsets leave it as it is, a naive operand against an aware one raises \<open>TypeError\<close>,
  and otherwise the result is \<open>base + otoff - myoff\<close>. (Python also returns \<open>base\<close>
  when both operands carry the very same \<open>tzinfo\<close> object. In the script \<open>now\<close> carries
  \<open>timezone.utc\<close>, whose offset is always zero, so two operands with that object have
  equal offsets and fall under the first case.)
\<close>

definition datetime_sub :: "datetime \<Rightarrow> datetime \<Rightarrow> error + timedelta" where
  "datetime_sub self other =
     (case timedelta_new (ordinal self - ordinal other)
             (seconds_of_day self - seconds_of_day other)
             (microsecond self - microsecond other) of
        Inl e \<Rightarrow> Inl e
      | Inr base \<Rightarrow>
          if utcoffset self = utcoffset other then Inr base
          else (case (utcoffset self, utcoffset other) of
                  (Some myoff, Some otoff) \<Rightarrow>
                    (case timedelta_add base otoff of
                       Inl e \<Rightarrow> Inl e
                     | Inr t \<Rightarrow> timedelta_sub t myoff)
                | _ \<Rightarrow> Inl TypeError))"

section \<open>The outside world\<close>

text \<open>The part of the GraphQL response the script reads: \<open>data.user\<close>.\<close>

record user_data =
  name :: "string option"
  login :: string
  nodes :: "pull_request list"

text \<open>
  Everything the script asks of its environment: the file system as seen through
  \<open>os.path\<close>, \<open>toml.load\<close>, the process environment, the GraphQL endpoint,
  \<open>dateutil.parser.parse\<close>, and the successive readings of
  \<open>datetime.now(timezone.utc)\<close>.
\<close>

record world =
  expanduser :: "string \<Rightarrow> string"
  isfile :: "string \<Rightarrow> bool"
  isdir :: "string \<Rightarrow> bool"
  islink :: "string \<Rightarrow> bool"
  toml_load :: "string \<Rightarrow> error + toml_doc"
  environ :: "string \<Rightarrow> string option"
  graphql_post :: "string \<Rightarrow> toml_value \<Rightarrow> error + user_data"
  parser_parse :: "string \<Rightarrow> error + datetime"
  clock :: "nat \<Rightarrow> datetime"

section \<open>Colour coding by age\<close>

text \<open>The escape sequences of \<open>class bcolors\<close>; \<open>\033\<close> is the byte 0x1B.\<close>

definition HEADER :: string where "HEADER = CHR 0x1B # ''[95m''"
definition OKBLUE :: string where "OKBLUE = CHR 0x1B # ''[94m''"
definition OKGREEN :: string where "OKGREEN = CHR 0x1B # ''[92m''"
definition WARNING :: string where "WARNING = CHR 0x1B # ''[93m''"
definition FAIL :: string where "FAIL = CHR 0x1B # ''[91m''"
definition ENDC :: string where "ENDC = CHR 0x1B # ''[0m''"
definition BOLD :: string where "BOLD = CHR 0x1B # ''[1m''"
definition UNDERLINE :: string where "UNDERLINE = CHR 0x1B # ''[4m''"

text \<open>The default of the parameter \<open>days\<close>.\<close>

definition default_days :: int where "default_days = 14"

text \<open>
  \<open>get_colour_coding_for_pr(pr, days)\<close>. The argument \<open>now\<close> is what
  \<open>datetime.now(timezone.utc)\<close> returns in this call.
\<close>

definition get_colour_coding_for_pr ::
    "world \<Rightarrow> datetime \<Rightarrow> pull_request \<Rightarrow> int \<Rightarrow> error + string" where
  "get_colour_coding_for_pr w now pr days =
     (case parser_parse w (createdAt pr) of
        Inl e \<Rightarrow> Inl e
      | Inr created_at \<Rightarrow>
          (case datetime_sub now created_at of
             Inl e \<Rightarrow> Inl e
           | Inr age \<Rightarrow>
               (case timedelta_new days 0 0 of
                  Inl e \<Rightarrow> Inl e
                | Inr limit \<Rightarrow> Inr (if timedelta_gt age limit then FAIL else OKGREEN))))"

section \<open>Instants on the UTC time line\<close>

text \<open>
  The reading of a duration in microseconds, and of an aware datetime in microseconds
  on the UTC time line. These are the terms in which the age rule is stated.
\<close>

definition td_total :: "timedelta \<Rightarrow> int" where
  "td_total t = (td_days t * 86400 + td_seconds t) * 1000000 + td_microseconds t"

definition td_normal :: "timedelta \<Rightarrow> bool" where
  "td_normal t \<longleftrightarrow>
     0 \<le> td_seconds t \<and> td_seconds t < 86400
     \<and> 0 \<le> td_microseconds t \<and> td_microseconds t < 1000000"

definition utc_microseconds :: "datetime \<Rightarrow> int" where
  "utc_microseconds dt =
     (ordinal dt * 86400 + seconds_of_day dt) * 1000000 + microsecond dt
     - (case utcoffset dt of None \<Rightarrow> 0 | Some off \<Rightarrow> td_total off)"

text \<open>
  The values a \<open>datetime\<close> object can hold: years 1 to 9999, fields in range, and an
  offset strictly between minus and plus one day.
\<close>

definition valid_offset :: "timedelta option \<Rightarrow> bool" where
  "valid_offset off =
     (case off of
        None \<Rightarrow> True
      | Some t \<Rightarrow> td_normal t \<and> - 86400000000 < td_total t \<and> td_total t < 86400000000)"

definition valid_datetime :: "datetime \<Rightarrow> bool" where
  "valid_datetime dt \<longleftrightarrow>
     1 \<le> ordinal dt \<and> ordinal dt \<le> 3652059
     \<and> 0 \<le> hour dt \<and> hour dt < 24
     \<and> 0 \<le> minute dt \<and> minute dt < 60
     \<and> 0 \<le> second dt \<and> second dt < 60
     \<and> 0 \<le> microsecond dt \<and> microsecond dt < 1000000
     \<and> valid_offset (utcoffset dt)"

definition wall_microseconds :: "datetime \<Rightarrow> int" where
  "wall_microseconds dt =
     (ordinal dt * 86400 + seconds_of_day dt) * 1000000 + microsecond dt"

section \<open>Output and outcomes\<close>

text \<open>
  What a run leaves behind: the strings handed to \<open>print\<close>, per stream and in order, and
  how often the clock has been read.
\<close>

record state =
  stdout :: "string list"
  stderr :: "string list"
  clock_reads :: nat

definition print_out :: "string \<Rightarrow> state \<Rightarrow> state" where
  "print_out s st = st\<lparr>stdout := stdout st @ [s]\<rparr>"

definition print_err :: "string \<Rightarrow> state \<Rightarrow> state" where
  "print_err s st = st\<lparr>stderr := stderr st @ [s]\<rparr>"

text \<open>
  A call returns, leaves through \<open>sys.exit(code)\<close>, or dies of an uncaught exception.
\<close>

datatype 'a result = Return 'a | SystemExit int | Raise error

section \<open>The configuration loader\<close>

definition paths :: "string list" where
  "paths =
     [''./.open_prs.toml'',
      ''./open_prs.toml'',
      ''~/.open_prs.toml'',
      ''~/.config/open_prs.toml'',
      ''/etc/open_prs.toml'']"

text \<open>\<open>sep.join(xs)\<close>.\<close>

fun join :: "string \<Rightarrow> string list \<Rightarrow> string" where
  "join sep [] = []"
| "join sep [x] = x"
| "join sep (x # y # ys) = x @ sep @ join sep (y # ys)"

definition not_found_message :: string where
  "not_found_message =
     ''Could not find settings file in any of these locations: '' @ join '', '' paths"

text \<open>The two messages carry double quotes (byte 0x22).\<close>

definition usernames_missing_message :: string where
  "usernames_missing_message =
     ''usernames definition missing in settings file: repos = ['' @ [CHR 0x22] @ ''bob''
       @ [CHR 0x22] @ '', '' @ [CHR 0x22] @ ''alice'' @ [CHR 0x22] @ '']''"

definition repos_missing_message :: string where
  "repos_missing_message =
     ''repos definition missing in settings file: repos = ['' @ [CHR 0x22] @ ''foo/prj''
       @ [CHR 0x22] @ '', '' @ [CHR 0x22] @ ''bar/prj'' @ [CHR 0x22] @ '']''"

text \<open>
  The loop over \<open>paths\<close>, with the variable \<open>settings\<close> as accumulator: every path that
  passes the three tests is loaded, and each load overwrites the one before.
\<close>

fun load_settings :: "world \<Rightarrow> string list \<Rightarrow> toml_doc option \<Rightarrow> error + toml_doc option" where
  "load_settings w [] settings = Inr settings"
| "load_settings w (path # rest) settings =
     (let path' = expanduser w path
      in if isfile w path' \<and> \<not> isdir w path' \<and> \<not> islink w path'
         then (case toml_load w path' of
                 Inl e \<Rightarrow> Inl e
               | Inr doc \<Rightarrow> load_settings w rest (Some doc))
         else load_settings w rest settings)"

type_synonym settings = "toml_value \<times> toml_value \<times> toml_value option"

text \<open>
  The rest of \<open>get_settings\<close>, from \<open>if not settings\<close> on. \<open>not settings\<close> holds for
  \<open>None\<close> and for the empty dict.
\<close>

definition settings_from :: "toml_doc option \<Rightarrow> state \<Rightarrow> state \<times> settings result" where
  "settings_from settings st =
     (case settings of
        None \<Rightarrow> (print_out not_found_message st, SystemExit 3)
      | Some doc \<Rightarrow>
          if doc = [] then (print_out not_found_message st, SystemExit 3)
          else (case map_of doc ''usernames'' of
                  None \<Rightarrow> (print_err usernames_missing_message st, SystemExit 2)
                | Some usernames \<Rightarrow>
                    (case map_of doc ''repos'' of
                       None \<Rightarrow> (print_err repos_missing_message st, SystemExit 2)
                     | Some repos \<Rightarrow>
                         (st, Return (usernames, repos, map_of doc ''github_token'')))))"

definition get_settings :: "world \<Rightarrow> state \<Rightarrow> state \<times> settings result" where
  "get_settings w st =
     (case load_settings w paths None of
        Inl e \<Rightarrow> (st, Raise e)
      | Inr settings \<Rightarrow> settings_from settings st)"

section \<open>The report\<close>

text \<open>
  \<open>get_prs_for_user\<close>: one POST to the GraphQL endpoint, determined by the login put
  into the query and the token put into the header; the decoded answer is returned.
\<close>

definition get_prs_for_user :: "world \<Rightarrow> string \<Rightarrow> toml_value \<Rightarrow> error + user_data" where
  "get_prs_for_user w username api_token = graphql_post w username api_token"

text \<open>\<open>"{}".format(x)\<close> for a display name, which GitHub may leave null.\<close>

fun format_name :: "string option \<Rightarrow> string" where
  "format_name None = ''None''"
| "format_name (Some s) = s"

text \<open>The link sign U+1F517 in UTF-8, and the blank after it.\<close>

definition link_prefix :: string where
  "link_prefix = [CHR 0xF0, CHR 0x9F, CHR 0x94, CHR 0x97, CHR 0x20]"

definition no_pull_requests_message :: string where
  "no_pull_requests_message = ''No pull requests!''"

text \<open>
  The loop \<open>for i, pr in enumerate(pull_requests)\<close>; \<open>n\<close> is \<open>len(pull_requests)\<close>.
  \<open>get_colour_coding_for_pr\<close> reads the clock once the timestamp has parsed, so a
  failure after the parse leaves one more reading behind, a failure of the parse none.
\<close>

fun render_prs ::
    "world \<Rightarrow> toml_value \<Rightarrow> nat \<Rightarrow> (nat \<times> pull_request) list \<Rightarrow> state \<Rightarrow> state \<times> unit result" where
  "render_prs w repos n [] st = (st, Return ())"
| "render_prs w repos n ((i, pr) # rest) st =
     (if \<not> py_in (nameWithOwner (repository pr)) repos then render_prs w repos n rest st
      else (case get_colour_coding_for_pr w (clock w (clock_reads st)) pr default_days of
              Inl e \<Rightarrow>
                ((case parser_parse w (createdAt pr) of
                    Inl e' \<Rightarrow> st
                  | Inr created_at \<Rightarrow> st\<lparr>clock_reads := Suc (clock_reads st)\<rparr>),
                 Raise e)
            | Inr colour \<Rightarrow>
                (let st1 = print_out (colour @ title pr @ ENDC)
                             (st\<lparr>clock_reads := Suc (clock_reads st)\<rparr>);
                     st2 = print_out (link_prefix @ url pr) st1
                 in if i + 1 = n
                    then render_prs w repos n rest (print_out [CHR 0x0A] st2)
                    else render_prs w repos n rest (print_out (replicate 80 CHR ''-'') st2))))"

text \<open>The body of the loop over the user names, after the fetch.\<close>

definition render_user :: "world \<Rightarrow> toml_value \<Rightarrow> user_data \<Rightarrow> state \<Rightarrow> state \<times> unit result" where
  "render_user w repos data st =
     (let st1 = print_out (OKBLUE @ format_name (name data) @ ENDC) st;
          st2 = print_out (replicate 80 CHR ''='') st1;
          pull_requests = filter_prs_by_repos (nodes data) repos;
          st3 = (if length pull_requests = 0 then print_out no_pull_requests_message st2
                 else st2)
      in render_prs w repos (length pull_requests) (enumerate 0 pull_requests) st3)"

definition report_user ::
    "world \<Rightarrow> toml_value \<Rightarrow> toml_value \<Rightarrow> string \<Rightarrow> state \<Rightarrow> state \<times> unit result" where
  "report_user w repos api_token username st =
     (case get_prs_for_user w username api_token of
        Inl e \<Rightarrow> (st, Raise e)
      | Inr data \<Rightarrow> render_user w repos data st)"

fun report_users ::
    "world \<Rightarrow> toml_value \<Rightarrow> toml_value \<Rightarrow> string list \<Rightarrow> state \<Rightarrow> state \<times> unit result" where
  "report_users w repos api_token [] st = (st, Return ())"
| "report_users w repos api_token (username # rest) st =
     (case report_user w repos api_token username st of
        (st', Return u) \<Rightarrow> report_users w repos api_token rest st'
      | (st', SystemExit c) \<Rightarrow> (st', SystemExit c)
      | (st', Raise e) \<Rightarrow> (st', Raise e))"

section \<open>The main program\<close>

text \<open>Truth value of a settings value, and of the optional token.\<close>

fun truthy :: "toml_value \<Rightarrow> bool" where
  "truthy (TomlString s) = (s \<noteq> [])"
| "truthy (TomlArray xs) = (xs \<noteq> [])"

text \<open>
  Strings are held as their UTF-8 bytes, while Python iterates a string by code point.
  A byte \<open>10xxxxxx\<close> continues the code point begun before it; \<open>code_points\<close> cuts a
  string in front of every other byte.
\<close>

definition is_continuation :: "char \<Rightarrow> bool" where
  "is_continuation c \<longleftrightarrow> 128 \<le> (of_char c :: nat) \<and> (of_char c :: nat) < 192"

fun code_points :: "string \<Rightarrow> string list" where
  "code_points [] = []"
| "code_points (c # cs) =
     (case code_points cs of
        [] \<Rightarrow> [[c]]
      | g # gs \<Rightarrow>
          (case g of
             [] \<Rightarrow> [c] # gs
           | d # ds \<Rightarrow> if is_continuation d then (c # g) # gs else [c] # g # gs))"

text \<open>\<open>for x in v\<close>: the elements of an array, the characters of a string.\<close>

fun py_iter :: "toml_value \<Rightarrow> string list" where
  "py_iter (TomlArray xs) = xs"
| "py_iter (TomlString s) = code_points s"

definition token_missing_message :: string where
  "token_missing_message =
     ''Please provide a Github API token via environment variable '' @ [CHR 0x60]
       @ ''GITHUB_TOKEN_GALAXY'' @ [CHR 0x60] @ '' or via settings file.''"

definition initial_state :: state where
  "initial_state = \<lparr>stdout = [], stderr = [], clock_reads = 0\<rparr>"

text \<open>
  The token of the settings file when it is truthy, else the environment variable;
  \<open>None\<close> when neither gives a truthy value.
\<close>

definition resolve_token :: "world \<Rightarrow> toml_value option \<Rightarrow> toml_value option" where
  "resolve_token w api_token =
     (let api_token1 =
            (if (case api_token of None \<Rightarrow> True | Some t \<Rightarrow> \<not> truthy t)
             then map_option TomlString (environ w ''GITHUB_TOKEN_GALAXY'')
             else api_token)
      in case api_token1 of
           None \<Rightarrow> None
         | Some t \<Rightarrow> if truthy t then Some t else None)"

definition main :: "world \<Rightarrow> state \<times> unit result" where
  "main w =
     (case get_settings w initial_state of
        (st, Raise e) \<Rightarrow> (st, Raise e)
      | (st, SystemExit c) \<Rightarrow> (st, SystemExit c)
      | (st, Return (usernames, repos, github_token)) \<Rightarrow>
          (case resolve_token w github_token of
             None \<Rightarrow> (print_err token_missing_message st, SystemExit 1)
           | Some api_token \<Rightarrow> report_users w repos api_token (py_iter usernames) st))"

text \<open>The exit status of the process.\<close>

fun exit_code :: "unit result \<Rightarrow> int" where
  "exit_code (Return u) = 0"
| "exit_code (SystemExit c) = c"
| "exit_code (Raise e) = 1"

section \<open>The candidates of the loader, as the specification names them\<close>

text \<open>
  A path is usable when it is a regular file, not a directory and not a symlink; the
  candidates found are the usable ones among the expanded paths, in search order.
\<close>

definition usable :: "world \<Rightarrow> string \<Rightarrow> bool" where
  "usable w p \<longleftrightarrow> isfile w p \<and> \<not> isdir w p \<and> \<not> islink w p"

definition found :: "world \<Rightarrow> string list \<Rightarrow> string list" where
  "found w ps = filter (usable w) (map (expanduser w) ps)"

definition parses :: "world \<Rightarrow> string \<Rightarrow> bool" where
  "parses w p = (case toml_load w p of Inl e \<Rightarrow> False | Inr doc \<Rightarrow> True)"

text \<open>The document of the last candidate found, if there is one and it parses.\<close>

definition last_doc :: "world \<Rightarrow> string list \<Rightarrow> toml_doc option" where
  "last_doc w ps =
     (case rev (found w ps) of
        [] \<Rightarrow> None
      | p # _ \<Rightarrow> (case toml_load w p of Inl e \<Rightarrow> None | Inr doc \<Rightarrow> Some doc))"

section \<open>The lines of a report\<close>

text \<open>
  The lines a user's report may hold besides pull requests, and the lines that show one
  pull request: its title in one of the two colours, and its link.
\<close>

definition decoration :: "user_data \<Rightarrow> string set" where
  "decoration data =
     {OKBLUE @ format_name (name data) @ ENDC, replicate 80 CHR ''='',
      no_pull_requests_message, replicate 80 CHR ''-'', [CHR 0x0A]}"

definition pr_lines :: "pull_request \<Rightarrow> string set" where
  "pr_lines pr = {OKGREEN @ title pr @ ENDC, FAIL @ title pr @ ENDC, link_prefix @ url pr}"

definition lines_of :: "(pull_request \<Rightarrow> bool) \<Rightarrow> pull_request list \<Rightarrow> string set" where
  "lines_of P prs = (\<Union>pr \<in> {pr \<in> set prs. P pr}. pr_lines pr)"

section \<open>A sample installation\<close>

text \<open>
  A machine with a settings file in the working directory and one in \<open>/etc\<close>, a symlink
  at the XDG path, and one user with three open pull requests, one of them in a
  repository that is not configured.
\<close>

definition local_doc :: toml_doc where
  "local_doc = [(''usernames'', TomlArray [''bob'']), (''repos'', TomlArray [''org/other''])]"

definition system_doc :: toml_doc where
  "system_doc =
     [(''usernames'', TomlArray [''alice'']),
      (''repos'', TomlArray [''org/repo1'']),
      (''github_token'', TomlString ''secret'')]"

definition utc :: "timedelta option" where
  "utc = Some \<lparr>td_days = 0, td_seconds = 0, td_microseconds = 0\<rparr>"

definition sample_created :: datetime where
  "sample_created =
     \<lparr>ordinal = 737425, hour = 12, minute = 0, second = 0, microsecond = 0, utcoffset = utc\<rparr>"

definition sample_now :: datetime where
  "sample_now =
     \<lparr>ordinal = 737439, hour = 12, minute = 0, second = 0, microsecond = 1, utcoffset = utc\<rparr>"

definition sample_recent :: datetime where
  "sample_recent =
     \<lparr>ordinal = 737425, hour = 14, minute = 0, second = 0, microsecond = 1,
      utcoffset = Some \<lparr>td_days = 0, td_seconds = 7200, td_microseconds = 0\<rparr>\<rparr>"

definition pr_old :: pull_request where
  "pr_old =
     \<lparr>repository = \<lparr>id_field = ''R1'', nameWithOwner = ''org/repo1''\<rparr>,
      createdAt = ''2020-01-01T12:00:00Z'', number = 7, title = ''Fix parser'',
      url = ''https://github.com/org/repo1/pull/7''\<rparr>"

definition pr_elsewhere :: pull_request where
  "pr_elsewhere =
     \<lparr>repository = \<lparr>id_field = ''R2'', nameWithOwner = ''org/repo2''\<rparr>,
      createdAt = ''2020-01-01T12:00:00Z'', number = 3, title = ''Add docs'',
      url = ''https://github.com/org/repo2/pull/3''\<rparr>"

definition pr_new :: pull_request where
  "pr_new =
     \<lparr>repository = \<lparr>id_field = ''R1'', nameWithOwner = ''org/repo1''\<rparr>,
      createdAt = ''2020-01-01T14:00:00.000001+02:00'', number = 9, title = ''Bump version'',
      url = ''https://github.com/org/repo1/pull/9''\<rparr>"

definition alice_data :: user_data where
  "alice_data = \<lparr>name = Some ''Alice'', login = ''alice'', nodes = [pr_old, pr_elsewhere, pr_new]\<rparr>"

definition sample_world :: world where
  "sample_world =
     \<lparr>expanduser = (\<lambda>p. if take 2 p = ''~/'' then ''/home/alice'' @ drop 1 p else p),
      isfile = (\<lambda>p. p = ''./open_prs.toml'' \<or> p = ''/home/alice/.config/open_prs.toml''
                    \<or> p = ''/etc/open_prs.toml''),
      isdir = (\<lambda>p. False),
      islink = (\<lambda>p. p = ''/home/alice/.config/open_prs.toml''),
      toml_load = (\<lambda>p. if p = ''./open_prs.toml'' then Inr local_doc
                         else if p = ''/etc/open_prs.toml'' then Inr system_doc
                         else Inl OSError),
      environ = (\<lambda>k. None),
      graphql_post = (\<lambda>u t. if u = ''alice'' then Inr alice_data else Inl TransportError),
      parser_parse = (\<lambda>s. if s = ''2020-01-01T12:00:00Z'' then Inr sample_created
                            else if s = ''2020-01-01T14:00:00.000001+02:00'' then Inr sample_recent
                            else Inl ParserError),
      clock = (\<lambda>n. sample_now)\<rparr>"

text \<open>The same machine with no settings file at all.\<close>

definition bare_world :: world where
  "bare_world = sample_world\<lparr>isfile := (\<lambda>p. False)\<rparr>"

text \<open>The same machine where every settings file is empty.\<close>

definition empty_doc_world :: world where
  "empty_doc_world = sample_world\<lparr>toml_load := (\<lambda>p. Inr [])\<rparr>"

text \<open>The same machine where the settings file in \<open>/etc\<close> names the users only.\<close>

definition no_repos_world :: world where
  "no_repos_world =
     sample_world\<lparr>toml_load := (\<lambda>p. Inr [(''usernames'', TomlArray [''alice''])])\<rparr>"

text \<open>
  The same machine where only the settings file in \<open>/etc\<close> is valid TOML; the one in the
  working directory is not.
\<close>

definition broken_local_world :: world where
  "broken_local_world =
     sample_world\<lparr>toml_load := (\<lambda>p. if p = ''/etc/open_prs.toml'' then Inr system_doc
                                     else Inl TomlDecodeError)\<rparr>"

section \<open>Properties of the filter\<close>

lemma list_contains_set: "list_contains x xs \<longleftrightarrow> x \<in> set xs"
  by (induction xs) auto

lemma filter_prs_by_repos_filter:
  "filter_prs_by_repos P repos = filter (\<lambda>pr. py_in (nameWithOwner (repository pr)) repos) P"
  by (induction P) simp_all

text \<open>
  C1. For every list of pull requests \<open>P\<close> and every repository set \<open>R\<close>, the filter returns
  exactly the elements of \<open>P\<close> whose \<open>nameWithOwner\<close> is a member of \<open>R\<close>: it is the
  library filter with that predicate, a subsequence of \<open>P\<close> (relative order kept), and
  every pull request occurs in the result as often as in \<open>P\<close> when its repository is in
  \<open>R\<close> and not at all otherwise (nothing duplicated, nothing dropped).
\<close>

theorem filter_prs_by_repos_exact:
  "filter_prs_by_repos P (TomlArray R) =
     filter (\<lambda>pr. nameWithOwner (repository pr) \<in> set R) P
   \<and> subseq (filter_prs_by_repos P (TomlArray R)) P
   \<and> (\<forall>pr. count_list (filter_prs_by_repos P (TomlArray R)) pr =
         (if nameWithOwner (repository pr) \<in> set R then count_list P pr else 0))"
proof -
  have eq: "filter_prs_by_repos P (TomlArray R) =
      filter (\<lambda>pr. nameWithOwner (repository pr) \<in> set R) P"
    by (simp add: filter_prs_by_repos_filter list_contains_set)
  have cnt: "count_list (filter Q xs) x = (if Q x then count_list xs x else 0)"
    for Q :: "pull_request \<Rightarrow> bool" and xs x
    by (induction xs) auto
  show ?thesis
    unfolding eq by (simp add: cnt)
qed

text \<open>
  C9. Filtering twice with the same repositories gives the same list as filtering once.
\<close>

theorem filter_prs_by_repos_idem:
  "filter_prs_by_repos (filter_prs_by_repos P R) R = filter_prs_by_repos P R"
  by (simp add: filter_prs_by_repos_filter)

section \<open>Properties of the age rule\<close>

lemma timedelta_norm_total:
  "td_total (timedelta_norm d s us) = (d * 86400 + s) * 1000000 + us"
  by (simp add: timedelta_norm_def td_total_def Let_def)

lemma timedelta_norm_normal: "td_normal (timedelta_norm d s us)"
  by (simp add: timedelta_norm_def td_normal_def Let_def)

lemma td_days_bounds:
  "td_normal t \<Longrightarrow>
     td_days t * 86400000000 \<le> td_total t \<and> td_total t < td_days t * 86400000000 + 86400000000"
  unfolding td_normal_def td_total_def by (simp add: algebra_simps)

text \<open>On normalised durations the lexicographic order is the order of the lengths.\<close>

lemma timedelta_gt_total:
  "td_normal a \<Longrightarrow> td_normal b \<Longrightarrow> timedelta_gt a b \<longleftrightarrow> td_total a > td_total b"
  unfolding td_normal_def td_total_def timedelta_gt_def by (simp add: algebra_simps) arith

lemma timedelta_new_in_range:
  assumes "\<bar>(d * 86400 + s) * 1000000 + us\<bar> \<le> 999999999 * 86400000000"
  shows "timedelta_new d s us = Inr (timedelta_norm d s us)"
proof -
  let ?t = "timedelta_norm d s us"
  have b: "td_days ?t * 86400000000 \<le> td_total ?t
      \<and> td_total ?t < td_days ?t * 86400000000 + 86400000000"
    by (rule td_days_bounds) (rule timedelta_norm_normal)
  have "\<bar>td_total ?t\<bar> \<le> 999999999 * 86400000000"
    using assms by (simp only: timedelta_norm_total)
  with b have "\<bar>td_days ?t\<bar> \<le> 999999999" by linarith
  then show ?thesis by (simp add: timedelta_new_def Let_def)
qed

lemma timedelta_add_in_range:
  assumes "\<bar>td_total x + td_total y\<bar> \<le> 999999999 * 86400000000"
  shows "\<exists>r. timedelta_add x y = Inr r \<and> td_normal r \<and> td_total r = td_total x + td_total y"
proof -
  have e: "((td_days x + td_days y) * 86400 + (td_seconds x + td_seconds y)) * 1000000
      + (td_microseconds x + td_microseconds y) = td_total x + td_total y"
    by (simp add: td_total_def algebra_simps)
  let ?r = "timedelta_norm (td_days x + td_days y)
      (td_seconds x + td_seconds y) (td_microseconds x + td_microseconds y)"
  have "timedelta_add x y = Inr ?r"
    unfolding timedelta_add_def
    by (rule timedelta_new_in_range) (simp only: e assms)
  moreover have "td_total ?r = td_total x + td_total y"
    by (simp only: timedelta_norm_total e)
  moreover have "td_normal ?r"
    by (rule timedelta_norm_normal)
  ultimately show ?thesis by blast
qed

lemma timedelta_sub_in_range:
  assumes "\<bar>td_total x - td_total y\<bar> \<le> 999999999 * 86400000000"
  shows "\<exists>r. timedelta_sub x y = Inr r \<and> td_normal r \<and> td_total r = td_total x - td_total y"
proof -
  have e: "((td_days x - td_days y) * 86400 + (td_seconds x - td_seconds y)) * 1000000
      + (td_microseconds x - td_microseconds y) = td_total x - td_total y"
    by (simp add: td_total_def algebra_simps)
  let ?r = "timedelta_norm (td_days x - td_days y)
      (td_seconds x - td_seconds y) (td_microseconds x - td_microseconds y)"
  have "timedelta_sub x y = Inr ?r"
    unfolding timedelta_sub_def
    by (rule timedelta_new_in_range) (simp only: e assms)
  moreover have "td_total ?r = td_total x - td_total y"
    by (simp only: timedelta_norm_total e)
  moreover have "td_normal ?r"
    by (rule timedelta_norm_normal)
  ultimately show ?thesis by blast
qed

lemma wall_bounds:
  "valid_datetime dt \<Longrightarrow>
     86400000000 \<le> wall_microseconds dt \<and> wall_microseconds dt < 3652060 * 86400000000"
  unfolding valid_datetime_def wall_microseconds_def seconds_of_day_def
  by (simp add: algebra_simps)

lemma wall_difference:
  assumes "valid_datetime N" and "valid_datetime T"
  shows "\<exists>base. timedelta_new (ordinal N - ordinal T) (seconds_of_day N - seconds_of_day T)
             (microsecond N - microsecond T) = Inr base
           \<and> td_normal base
           \<and> td_total base = wall_microseconds N - wall_microseconds T"
proof -
  have e: "((ordinal N - ordinal T) * 86400 + (seconds_of_day N - seconds_of_day T)) * 1000000
      + (microsecond N - microsecond T) = wall_microseconds N - wall_microseconds T"
    by (simp add: wall_microseconds_def algebra_simps)
  let ?r = "timedelta_norm (ordinal N - ordinal T)
      (seconds_of_day N - seconds_of_day T) (microsecond N - microsecond T)"
  have "\<bar>wall_microseconds N - wall_microseconds T\<bar> \<le> 999999999 * 86400000000"
    using wall_bounds [OF assms(1)] wall_bounds [OF assms(2)] by linarith
  then have "timedelta_new (ordinal N - ordinal T) (seconds_of_day N - seconds_of_day T)
      (microsecond N - microsecond T) = Inr ?r"
    by (intro timedelta_new_in_range) (simp only: e)
  moreover have "td_total ?r = wall_microseconds N - wall_microseconds T"
    by (simp only: timedelta_norm_total e)
  moreover have "td_normal ?r"
    by (rule timedelta_norm_normal)
  ultimately show ?thesis by blast
qed

text \<open>
  Subtracting two valid aware datetimes never fails, and the normalised result is the
  distance of the two instants on the UTC time line.
\<close>

lemma datetime_sub_aware:
  assumes vN: "valid_datetime N" and vT: "valid_datetime T"
    and oN: "utcoffset N = Some a" and oT: "utcoffset T = Some b"
  shows "\<exists>age. datetime_sub N T = Inr age \<and> td_normal age
           \<and> td_total age = utc_microseconds N - utc_microseconds T"
proof -
  from wall_difference [OF vN vT] obtain base
    where base: "timedelta_new (ordinal N - ordinal T) (seconds_of_day N - seconds_of_day T)
             (microsecond N - microsecond T) = Inr base"
      and nb: "td_normal base"
      and tb: "td_total base = wall_microseconds N - wall_microseconds T"
    by blast
  note wN = wall_bounds [OF vN] and wT = wall_bounds [OF vT]
  have ua: "- 86400000000 < td_total a \<and> td_total a < 86400000000"
    using vN oN by (simp add: valid_datetime_def valid_offset_def)
  have ub: "- 86400000000 < td_total b \<and> td_total b < 86400000000"
    using vT oT by (simp add: valid_datetime_def valid_offset_def)
  have utc: "utc_microseconds N - utc_microseconds T
      = wall_microseconds N - wall_microseconds T + td_total b - td_total a"
    by (simp add: utc_microseconds_def wall_microseconds_def oN oT)
  show ?thesis
  proof (cases "a = b")
    case True
    then have "datetime_sub N T = Inr base"
      by (simp add: datetime_sub_def base oN oT)
    moreover have "td_total base = utc_microseconds N - utc_microseconds T"
      using True tb utc by simp
    ultimately show ?thesis using nb by simp
  next
    case False
    have "\<bar>td_total base + td_total b\<bar> \<le> 999999999 * 86400000000"
      using tb wN wT ub by linarith
    from timedelta_add_in_range [OF this] obtain t
      where add: "timedelta_add base b = Inr t"
        and tt: "td_total t = td_total base + td_total b"
      by blast
    have "\<bar>td_total t - td_total a\<bar> \<le> 999999999 * 86400000000"
      using tt tb wN wT ub ua by linarith
    from timedelta_sub_in_range [OF this] obtain r
      where sub: "timedelta_sub t a = Inr r" and nr: "td_normal r"
        and tr: "td_total r = td_total t - td_total a"
      by blast
    have "datetime_sub N T = Inr r"
      using False by (simp add: datetime_sub_def base oN oT add sub)
    moreover have "td_total r = utc_microseconds N - utc_microseconds T"
      using tr tt tb utc by simp
    ultimately show ?thesis using nr by simp
  qed
qed

lemma timedelta_days_14:
  "timedelta_new 14 0 0 = Inr \<lparr>td_days = 14, td_seconds = 0, td_microseconds = 0\<rparr>"
  by (simp add: timedelta_new_def timedelta_norm_def)

lemma colour_cases:
  "get_colour_coding_for_pr w now pr d = Inr c \<Longrightarrow> c = FAIL \<or> c = OKGREEN"
  by (auto simp: get_colour_coding_for_pr_def split: sum.splits if_splits)

text \<open>
  C2. Let the creation timestamp parse to a valid aware datetime \<open>T\<close> and let the clock
  read a valid aware datetime \<open>N\<close>. With the default of 14 days the colour returned is
  \<open>FAIL\<close> exactly when the instant of \<open>N\<close> lies more than 14 days (in microseconds on the
  UTC time line) after the instant of \<open>T\<close>, and \<open>OKGREEN\<close> otherwise; at a distance of
  exactly 14 days it is \<open>OKGREEN\<close>. The two colours differ.
\<close>

theorem colour_by_age:
  assumes "parser_parse w (createdAt pr) = Inr T"
    and "valid_datetime T" and "valid_datetime N"
    and "utcoffset T \<noteq> None" and "utcoffset N \<noteq> None"
  shows "get_colour_coding_for_pr w N pr default_days =
           Inr (if utc_microseconds N - utc_microseconds T > 14 * 86400 * 1000000
                then FAIL else OKGREEN)
         \<and> (utc_microseconds N - utc_microseconds T = 14 * 86400 * 1000000 \<longrightarrow>
              get_colour_coding_for_pr w N pr default_days = Inr OKGREEN)
         \<and> FAIL \<noteq> OKGREEN"
proof -
  from assms obtain a b where oN: "utcoffset N = Some a" and oT: "utcoffset T = Some b"
    by auto
  from datetime_sub_aware [OF assms(3) assms(2) oN oT]
  obtain age where s: "datetime_sub N T = Inr age" and n: "td_normal age"
    and t: "td_total age = utc_microseconds N - utc_microseconds T"
    by blast
  let ?limit = "\<lparr>td_days = 14, td_seconds = 0, td_microseconds = 0\<rparr>"
  have nl: "td_normal ?limit" by (simp add: td_normal_def)
  have tl: "td_total ?limit = 14 * 86400 * 1000000" by (simp add: td_total_def)
  have gt: "timedelta_gt age ?limit
      \<longleftrightarrow> utc_microseconds N - utc_microseconds T > 14 * 86400 * 1000000"
    using timedelta_gt_total [OF n nl] t tl by simp
  have "get_colour_coding_for_pr w N pr default_days =
      Inr (if timedelta_gt age ?limit then FAIL else OKGREEN)"
    by (simp add: get_colour_coding_for_pr_def assms(1) s default_days_def timedelta_days_14)
  moreover have "FAIL \<noteq> OKGREEN" by (simp add: FAIL_def OKGREEN_def)
  ultimately show ?thesis using gt by simp
qed

theorem colour_by_age_witness:
  "parser_parse sample_world (createdAt pr_old) = Inr sample_created
   \<and> valid_datetime sample_created \<and> valid_datetime sample_now
   \<and> utcoffset sample_created \<noteq> None \<and> utcoffset sample_now \<noteq> None
   \<and> utc_microseconds sample_now - utc_microseconds sample_created = 14 * 86400 * 1000000 + 1
   \<and> get_colour_coding_for_pr sample_world sample_now pr_old default_days = Inr FAIL
   \<and> parser_parse sample_world (createdAt pr_new) = Inr sample_recent
   \<and> valid_datetime sample_recent \<and> utcoffset sample_recent \<noteq> None
   \<and> utc_microseconds sample_now - utc_microseconds sample_recent = 14 * 86400 * 1000000
   \<and> get_colour_coding_for_pr sample_world sample_now pr_new default_days = Inr OKGREEN"
proof -
  have p: "parser_parse sample_world (createdAt pr_old) = Inr sample_created"
    by (simp add: sample_world_def pr_old_def)
  have vT: "valid_datetime sample_created"
    by (simp add: valid_datetime_def valid_offset_def sample_created_def utc_def
        td_normal_def td_total_def)
  have vN: "valid_datetime sample_now"
    by (simp add: valid_datetime_def valid_offset_def sample_now_def utc_def
        td_normal_def td_total_def)
  have oT: "utcoffset sample_created \<noteq> None" by (simp add: sample_created_def utc_def)
  have oN: "utcoffset sample_now \<noteq> None" by (simp add: sample_now_def utc_def)
  have d: "utc_microseconds sample_now - utc_microseconds sample_created
      = 14 * 86400 * 1000000 + 1"
    by (simp add: utc_microseconds_def seconds_of_day_def sample_now_def sample_created_def
        utc_def td_total_def)
  from colour_by_age [OF p vT vN oT oN]
  have old: "get_colour_coding_for_pr sample_world sample_now pr_old default_days = Inr FAIL"
    by (simp only: d) simp
  have p': "parser_parse sample_world (createdAt pr_new) = Inr sample_recent"
    by (simp add: sample_world_def pr_new_def)
  have vT': "valid_datetime sample_recent"
    by (simp add: valid_datetime_def valid_offset_def sample_recent_def
        td_normal_def td_total_def)
  have oT': "utcoffset sample_recent \<noteq> None" by (simp add: sample_recent_def)
  have d': "utc_microseconds sample_now - utc_microseconds sample_recent
      = 14 * 86400 * 1000000"
    by (simp add: utc_microseconds_def seconds_of_day_def sample_now_def sample_recent_def
        utc_def td_total_def)
  from colour_by_age [OF p' vT' vN oT' oN]
  have new: "get_colour_coding_for_pr sample_world sample_now pr_new default_days = Inr OKGREEN"
    by (simp only: d') simp
  from p vT vN oT oN d old p' vT' oT' d' new show ?thesis by blast
qed

section \<open>Properties of the configuration loader\<close>

lemma load_settings_step:
  "load_settings w (p # ps) acc =
     (if usable w (expanduser w p)
      then (case toml_load w (expanduser w p) of
              Inl e \<Rightarrow> Inl e
            | Inr doc \<Rightarrow> load_settings w ps (Some doc))
      else load_settings w ps acc)"
  by (simp add: usable_def Let_def)

text \<open>
  The loop returns exactly when every candidate found parses, and then with the document
  of the last one (or with its starting value when none is found).
\<close>

lemma load_settings_acc:
  "load_settings w ps acc = Inr s \<longleftrightarrow>
     list_all (parses w) (found w ps)
     \<and> s = (if found w ps = [] then acc else last_doc w ps)"
proof (induction ps arbitrary: acc)
  case Nil
  then show ?case by (auto simp: found_def)
next
  case (Cons p ps)
  show ?case
  proof (cases "usable w (expanduser w p)")
    case False
    then have "load_settings w (p # ps) acc = load_settings w ps acc"
      by (simp only: load_settings_step if_False)
    moreover from False have "found w (p # ps) = found w ps"
      by (simp add: found_def)
    moreover from False have "last_doc w (p # ps) = last_doc w ps"
      by (simp add: last_doc_def found_def)
    ultimately show ?thesis using Cons.IH [of acc] by simp
  next
    case True
    then have f: "found w (p # ps) = expanduser w p # found w ps"
      by (simp add: found_def)
    show ?thesis
    proof (cases "toml_load w (expanduser w p)")
      case (Inl e)
      then have "\<not> parses w (expanduser w p)"
        by (simp add: parses_def)
      with Inl show ?thesis
        using True by (simp add: load_settings_step f del: load_settings.simps)
    next
      case (Inr doc)
      then have l: "load_settings w (p # ps) acc = load_settings w ps (Some doc)"
        using True by (simp add: load_settings_step del: load_settings.simps)
      have ld: "(if found w ps = [] then Some doc else last_doc w ps) = last_doc w (p # ps)"
        using Inr by (cases "rev (found w ps)") (auto simp: last_doc_def f)
      have pp: "parses w (expanduser w p)"
        using Inr by (simp add: parses_def)
      show ?thesis
        unfolding l Cons.IH [of "Some doc"] using ld by (simp add: f pp)
    qed
  qed
qed

lemma last_doc_none: "found w ps = [] \<Longrightarrow> last_doc w ps = None"
  by (simp add: last_doc_def)

lemma load_settings_last:
  "load_settings w ps None = Inr s \<longleftrightarrow> list_all (parses w) (found w ps) \<and> s = last_doc w ps"
  by (simp only: load_settings_acc) (auto simp: last_doc_none)

lemma get_settings_last:
  "list_all (parses w) (found w paths) \<Longrightarrow>
     get_settings w st = settings_from (last_doc w paths) st"
proof -
  assume "list_all (parses w) (found w paths)"
  then have "load_settings w paths None = Inr (last_doc w paths)"
    by (simp only: load_settings_last)
  then show ?thesis by (simp add: get_settings_def)
qed

lemma not_found_message_text:
  "not_found_message =
     ''Could not find settings file in any of these locations: ''
       @ ''./.open_prs.toml, ./open_prs.toml, ~/.open_prs.toml, ''
       @ ''~/.config/open_prs.toml, /etc/open_prs.toml''"
  by (simp add: not_found_message_def paths_def)

lemma main_not_found:
  assumes "found w paths = []"
  shows "main w =
           (\<lparr>stdout = [not_found_message], stderr = [], clock_reads = 0\<rparr>, SystemExit 3)"
proof -
  from assms have "list_all (parses w) (found w paths)" by simp
  then have "get_settings w initial_state = settings_from (last_doc w paths) initial_state"
    by (rule get_settings_last)
  then have "get_settings w initial_state = settings_from None initial_state"
    by (simp only: last_doc_none [OF assms])
  then show ?thesis
    by (simp add: main_def settings_from_def print_out_def initial_state_def)
qed

lemma found_without_files: "found (w\<lparr>isfile := (\<lambda>p. False)\<rparr>) ps = []"
  by (simp add: found_def usable_def)

lemma found_sample: "found sample_world paths = [''./open_prs.toml'', ''/etc/open_prs.toml'']"
  by (simp add: found_def usable_def paths_def sample_world_def)

lemma found_bare: "found bare_world paths = []"
  unfolding bare_world_def by (rule found_without_files)

text \<open>
  C3 as it is written fails when an earlier candidate does not parse: every candidate
  found is handed to \<open>toml.load\<close> in turn and nothing catches its exception. Here the
  last candidate found is the complete file in \<open>/etc\<close>, and the run still dies on the file
  in the working directory.
\<close>

theorem last_candidate_wins_counterexample:
  "found broken_local_world paths = [''./open_prs.toml'', ''/etc/open_prs.toml'']
   \<and> toml_load broken_local_world ''/etc/open_prs.toml'' = Inr system_doc
   \<and> last_doc broken_local_world paths = Some system_doc
   \<and> load_settings broken_local_world paths None = Inl TomlDecodeError
   \<and> get_settings broken_local_world initial_state
       \<noteq> settings_from (Some system_doc) initial_state
   \<and> main broken_local_world = (initial_state, Raise TomlDecodeError)"
proof -
  have f: "found broken_local_world paths = [''./open_prs.toml'', ''/etc/open_prs.toml'']"
    by (simp add: found_def usable_def paths_def broken_local_world_def sample_world_def)
  have t: "toml_load broken_local_world ''/etc/open_prs.toml'' = Inr system_doc"
    by (simp add: broken_local_world_def)
  have d: "last_doc broken_local_world paths = Some system_doc"
    by (simp add: last_doc_def f t)
  have l: "load_settings broken_local_world paths None = Inl TomlDecodeError"
    by (simp add: broken_local_world_def sample_world_def paths_def)
  have g: "get_settings broken_local_world initial_state = (initial_state, Raise TomlDecodeError)"
    by (simp add: get_settings_def l)
  have s: "settings_from (Some system_doc) initial_state =
      (initial_state,
       Return (TomlArray [''alice''], TomlArray [''org/repo1''], Some (TomlString ''secret'')))"
    by (simp add: settings_from_def system_doc_def)
  have n: "get_settings broken_local_world initial_state
      \<noteq> settings_from (Some system_doc) initial_state"
    unfolding g s by simp
  have m: "main broken_local_world = (initial_state, Raise TomlDecodeError)"
    by (simp add: main_def g)
  from f t d l n m show ?thesis by blast
qed

text \<open>
  C3, as amended. The five paths are searched in the order given, and every candidate
  found (a regular file that is neither a directory nor a symlink, after \<open>expanduser\<close>) is
  parsed in turn. The loop returns settings exactly when every candidate found parses,
  and the settings are then the document parsed from the last candidate found, whatever
  the earlier candidates hold; the rest of \<open>get_settings\<close> works on that document alone.
  When a candidate found does not parse, the loop and \<open>get_settings\<close> end with an
  exception instead.
\<close>

theorem last_candidate_wins:
  "paths = [''./.open_prs.toml'', ''./open_prs.toml'', ''~/.open_prs.toml'',
            ''~/.config/open_prs.toml'', ''/etc/open_prs.toml'']
   \<and> (load_settings w paths None = Inr s \<longleftrightarrow>
        list_all (parses w) (found w paths) \<and> s = last_doc w paths)
   \<and> (list_all (parses w) (found w paths) \<longrightarrow>
        get_settings w st = settings_from (last_doc w paths) st)
   \<and> (\<not> list_all (parses w) (found w paths) \<longrightarrow>
        (\<exists>e. load_settings w paths None = Inl e \<and> get_settings w st = (st, Raise e)))"
proof -
  have p: "paths = [''./.open_prs.toml'', ''./open_prs.toml'', ''~/.open_prs.toml'',
      ''~/.config/open_prs.toml'', ''/etc/open_prs.toml'']"
    by (simp add: paths_def)
  have i: "load_settings w paths None = Inr s \<longleftrightarrow>
      list_all (parses w) (found w paths) \<and> s = last_doc w paths"
    by (rule load_settings_last)
  have g: "list_all (parses w) (found w paths) \<longrightarrow>
      get_settings w st = settings_from (last_doc w paths) st"
    by (simp add: get_settings_last)
  have r: "\<not> list_all (parses w) (found w paths) \<longrightarrow>
      (\<exists>e. load_settings w paths None = Inl e \<and> get_settings w st = (st, Raise e))"
  proof
    assume n: "\<not> list_all (parses w) (found w paths)"
    show "\<exists>e. load_settings w paths None = Inl e \<and> get_settings w st = (st, Raise e)"
    proof (cases "load_settings w paths None")
      case (Inl e)
      then show ?thesis by (simp add: get_settings_def)
    next
      case (Inr s')
      then have "list_all (parses w) (found w paths)"
        by (simp only: load_settings_last)
      with n show ?thesis by simp
    qed
  qed
  from p i g r show ?thesis by (intro conjI)
qed

theorem last_candidate_wins_witness:
  "list_all (parses sample_world) (found sample_world paths)
   \<and> found sample_world paths = [''./open_prs.toml'', ''/etc/open_prs.toml'']
   \<and> toml_load sample_world ''./open_prs.toml'' = Inr local_doc
   \<and> toml_load sample_world ''/etc/open_prs.toml'' = Inr system_doc
   \<and> load_settings sample_world paths None = Inr (Some system_doc)
   \<and> get_settings sample_world initial_state =
       (initial_state,
        Return (TomlArray [''alice''], TomlArray [''org/repo1''], Some (TomlString ''secret'')))"
proof -
  have a: "list_all (parses sample_world) (found sample_world paths)"
    by (simp add: found_sample) (simp add: parses_def sample_world_def)
  have l1: "toml_load sample_world ''./open_prs.toml'' = Inr local_doc"
    by (simp add: sample_world_def)
  have l2: "toml_load sample_world ''/etc/open_prs.toml'' = Inr system_doc"
    by (simp add: sample_world_def)
  have d: "last_doc sample_world paths = Some system_doc"
    by (simp add: last_doc_def found_sample l2)
  have s: "settings_from (Some system_doc) initial_state =
      (initial_state,
       Return (TomlArray [''alice''], TomlArray [''org/repo1''], Some (TomlString ''secret'')))"
    by (simp add: settings_from_def system_doc_def)
  from last_candidate_wins [of sample_world "Some system_doc" initial_state] a d s
  have "load_settings sample_world paths None = Inr (Some system_doc)
      \<and> get_settings sample_world initial_state =
        (initial_state,
         Return (TomlArray [''alice''], TomlArray [''org/repo1''], Some (TomlString ''secret'')))"
    by simp
  with a found_sample l1 l2 show ?thesis by blast
qed

text \<open>
  C6. When none of the five paths is a usable candidate (so in particular when no file
  exists at any of them), the program prints the message that lists the five paths as
  they are written in the script, and exits with code 3.
\<close>

theorem no_settings_file_exit_3:
  assumes "found w paths = []"
  shows "main w =
           (\<lparr>stdout = [''Could not find settings file in any of these locations: ''
                        @ ''./.open_prs.toml, ./open_prs.toml, ~/.open_prs.toml, ''
                        @ ''~/.config/open_prs.toml, /etc/open_prs.toml''],
             stderr = [], clock_reads = 0\<rparr>,
            SystemExit 3)
         \<and> exit_code (snd (main w)) = 3"
  using main_not_found [OF assms] by (simp only: not_found_message_text) simp

theorem no_settings_file_exit_3_witness:
  "found bare_world paths = []
   \<and> stdout (fst (main bare_world)) = [not_found_message]
   \<and> exit_code (snd (main bare_world)) = 3"
proof -
  from no_settings_file_exit_3 [OF found_bare]
  have "stdout (fst (main bare_world)) = [not_found_message]
      \<and> exit_code (snd (main bare_world)) = 3"
    by (simp only: not_found_message_text) simp
  with found_bare show ?thesis by blast
qed

text \<open>
  C7, as amended. When the loaded document is not empty and lacks the key
  \<open>usernames\<close> or the key \<open>repos\<close>, the program prints the message for the first
  missing key to stderr, prints nothing to stdout, and exits with code 2.
\<close>

theorem incomplete_settings_exit_2:
  assumes "load_settings w paths None = Inr (Some doc)"
    and "doc \<noteq> []"
    and "map_of doc ''usernames'' = None \<or> map_of doc ''repos'' = None"
  shows "main w =
           (\<lparr>stdout = [],
             stderr = [if map_of doc ''usernames'' = None then usernames_missing_message
                       else repos_missing_message],
             clock_reads = 0\<rparr>,
            SystemExit 2)
         \<and> exit_code (snd (main w)) = 2"
proof -
  have "get_settings w initial_state = settings_from (Some doc) initial_state"
    by (simp add: get_settings_def assms(1))
  then show ?thesis
    using assms(2,3)
    by (auto simp: main_def settings_from_def print_err_def initial_state_def)
qed

lemma load_no_repos:
  "load_settings no_repos_world paths None = Inr (Some [(''usernames'', TomlArray [''alice''])])"
  by (simp add: no_repos_world_def sample_world_def paths_def)

theorem incomplete_settings_exit_2_witness:
  "load_settings no_repos_world paths None = Inr (Some [(''usernames'', TomlArray [''alice''])])
   \<and> [(''usernames'', TomlArray [''alice''])] \<noteq> ([] :: toml_doc)
   \<and> map_of [(''usernames'', TomlArray [''alice''])] ''repos'' = None
   \<and> main no_repos_world =
       (\<lparr>stdout = [], stderr = [repos_missing_message], clock_reads = 0\<rparr>, SystemExit 2)"
proof -
  have n: "[(''usernames'', TomlArray [''alice''])] \<noteq> ([] :: toml_doc)" by simp
  have m: "map_of [(''usernames'', TomlArray [''alice''])] ''repos'' = None" by simp
  from m have m': "map_of [(''usernames'', TomlArray [''alice''])] ''usernames'' = None
      \<or> map_of [(''usernames'', TomlArray [''alice''])] ''repos'' = None" ..
  from incomplete_settings_exit_2 [OF load_no_repos n m']
  have "main no_repos_world =
      (\<lparr>stdout = [], stderr = [repos_missing_message], clock_reads = 0\<rparr>, SystemExit 2)"
    by simp
  with load_no_repos n m show ?thesis by blast
qed

lemma load_empty_doc: "load_settings empty_doc_world paths None = Inr (Some [])"
  by (simp add: empty_doc_world_def sample_world_def paths_def)

text \<open>
  C7 as it is written fails on an empty settings file: it loads to the empty document,
  which lacks both keys, and the program then exits with code 3, not 2.
\<close>

theorem incomplete_settings_counterexample:
  "load_settings empty_doc_world paths None = Inr (Some [])
   \<and> map_of ([] :: toml_doc) ''usernames'' = None
   \<and> map_of ([] :: toml_doc) ''repos'' = None
   \<and> snd (main empty_doc_world) = SystemExit 3
   \<and> exit_code (snd (main empty_doc_world)) \<noteq> 2"
  by (simp add: main_def get_settings_def load_empty_doc settings_from_def)

text \<open>
  C8, at the failing input. With no settings file anywhere the diagnostic goes to stdout
  and stderr stays empty.
\<close>

theorem not_found_message_on_stdout:
  "stdout (fst (main bare_world)) = [not_found_message]
   \<and> stderr (fst (main bare_world)) = []
   \<and> snd (main bare_world) = SystemExit 3"
  by (simp add: main_not_found [OF found_bare])



section \<open>Properties of the report\<close>

lemma py_in_array: "py_in x (TomlArray R) \<longleftrightarrow> x \<in> set R"
  by (simp add: list_contains_set)

lemma stdout_print_out: "stdout (print_out s st) = stdout st @ [s]"
  by (simp add: print_out_def)

lemma stderr_print_out: "stderr (print_out s st) = stderr st"
  by (simp add: print_out_def)

text \<open>
  One pass of the loop body for a pull request that is shown: the state after the title
  line, the link line and the closing line \<open>x\<close>.
\<close>

lemma render_prs_shown:
  assumes "py_in (nameWithOwner (repository pr)) repos"
    and "get_colour_coding_for_pr w (clock w (clock_reads st)) pr default_days = Inr c"
  shows "render_prs w repos n ((i, pr) # rest) st =
           render_prs w repos n rest
             (print_out (if i + 1 = n then [CHR 0x0A] else replicate 80 CHR ''-'')
                (print_out (link_prefix @ url pr)
                   (print_out (c @ title pr @ ENDC)
                      (st\<lparr>clock_reads := Suc (clock_reads st)\<rparr>))))"
  using assms by (simp add: Let_def)

lemma render_prs_skipped:
  "\<not> py_in (nameWithOwner (repository pr)) repos \<Longrightarrow>
     render_prs w repos n ((i, pr) # rest) st = render_prs w repos n rest st"
  by simp

lemma render_prs_failed:
  assumes "py_in (nameWithOwner (repository pr)) repos"
    and "get_colour_coding_for_pr w (clock w (clock_reads st)) pr default_days = Inl e"
  shows "stdout (fst (render_prs w repos n ((i, pr) # rest) st)) = stdout st"
  using assms by (simp split: sum.splits)

lemma lines_of_Cons:
  "lines_of P (pr # prs) = (if P pr then pr_lines pr \<union> lines_of P prs else lines_of P prs)"
  by (auto simp: lines_of_def)

lemma lines_of_mono: "set prs \<subseteq> set prs' \<Longrightarrow> lines_of P prs \<subseteq> lines_of P prs'"
  by (auto simp: lines_of_def)

text \<open>
  Whatever the loop prints is a closing line or a line of a pull request of the list whose
  repository passes the membership test.
\<close>

lemma render_prs_lines:
  "set (stdout (fst (render_prs w repos n ips st)))
     \<subseteq> set (stdout st) \<union> {replicate 80 CHR ''-'', [CHR 0x0A]}
       \<union> lines_of (\<lambda>pr. py_in (nameWithOwner (repository pr)) repos) (map snd ips)"
proof (induction ips arbitrary: st)
  case Nil
  show ?case by auto
next
  case (Cons ip ips)
  obtain i pr where ip: "ip = (i, pr)" by (cases ip)
  let ?P = "\<lambda>pr. py_in (nameWithOwner (repository pr)) repos"
  show ?case
  proof (cases "?P pr")
    case False
    then have l: "lines_of ?P (map snd (ip # ips)) = lines_of ?P (map snd ips)"
      by (simp add: ip lines_of_Cons)
    from Cons.IH [of st] show ?thesis
      unfolding l unfolding ip render_prs_skipped [OF False] .
  next
    case True
    then have l: "lines_of ?P (map snd (ip # ips)) = pr_lines pr \<union> lines_of ?P (map snd ips)"
      by (simp add: ip lines_of_Cons)
    show ?thesis
    proof (cases "get_colour_coding_for_pr w (clock w (clock_reads st)) pr default_days")
      case (Inl e)
      show ?thesis
        unfolding ip render_prs_failed [OF True Inl] by auto
    next
      case (Inr c)
      let ?x = "if i + 1 = n then [CHR 0x0A] else replicate 80 CHR ''-''"
      let ?st = "print_out ?x (print_out (link_prefix @ url pr)
          (print_out (c @ title pr @ ENDC) (st\<lparr>clock_reads := Suc (clock_reads st)\<rparr>)))"
      have c: "c = FAIL \<or> c = OKGREEN" using Inr by (rule colour_cases)
      have lines: "{c @ title pr @ ENDC, link_prefix @ url pr} \<subseteq> pr_lines pr"
        using c by (auto simp: pr_lines_def)
      have s: "set (stdout ?st) =
          set (stdout st) \<union> {c @ title pr @ ENDC, link_prefix @ url pr} \<union> {?x}"
        by (auto simp: stdout_print_out)
      have x: "{?x} \<subseteq> {replicate 80 CHR ''-'', [CHR 0x0A]}" by simp
      have "set (stdout (fst (render_prs w repos n ips ?st)))
          \<subseteq> set (stdout ?st) \<union> {replicate 80 CHR ''-'', [CHR 0x0A]}
            \<union> lines_of ?P (map snd ips)"
        by (rule Cons.IH)
      with lines x have "set (stdout (fst (render_prs w repos n ips ?st)))
          \<subseteq> set (stdout st) \<union> {replicate 80 CHR ''-'', [CHR 0x0A]}
            \<union> (pr_lines pr \<union> lines_of ?P (map snd ips))"
        unfolding s by blast
      then show ?thesis
        unfolding l unfolding ip render_prs_shown [OF True Inr] .
    qed
  qed
qed

lemma map_snd_enumerate: "map snd (enumerate k xs) = xs"
  by (induction xs arbitrary: k) simp_all

lemma render_user_lines:
  "set (stdout (fst (render_user w repos data st)))
     \<subseteq> set (stdout st) \<union> decoration data
       \<union> lines_of (\<lambda>pr. py_in (nameWithOwner (repository pr)) repos) (nodes data)"
proof -
  let ?P = "\<lambda>pr. py_in (nameWithOwner (repository pr)) repos"
  let ?prs = "filter_prs_by_repos (nodes data) repos"
  let ?st2 = "print_out (replicate 80 CHR ''='')
      (print_out (OKBLUE @ format_name (name data) @ ENDC) st)"
  let ?st3 = "if length ?prs = 0 then print_out no_pull_requests_message ?st2 else ?st2"
  have r: "render_user w repos data st =
      render_prs w repos (length ?prs) (enumerate 0 ?prs) ?st3"
    by (simp add: render_user_def Let_def)
  have s3: "set (stdout ?st3) \<subseteq> set (stdout st) \<union> decoration data"
    by (auto simp: stdout_print_out decoration_def)
  have "set ?prs \<subseteq> set (nodes data)"
    by (auto simp: filter_prs_by_repos_filter)
  then have prs: "lines_of ?P ?prs \<subseteq> lines_of ?P (nodes data)"
    by (rule lines_of_mono)
  have d: "{replicate 80 CHR ''-'', [CHR 0x0A]} \<subseteq> decoration data"
    by (simp add: decoration_def)
  have "set (stdout (fst (render_prs w repos (length ?prs) (enumerate 0 ?prs) ?st3)))
      \<subseteq> set (stdout ?st3) \<union> {replicate 80 CHR ''-'', [CHR 0x0A]} \<union> lines_of ?P ?prs"
    using render_prs_lines [of w repos "length ?prs" "enumerate 0 ?prs" ?st3]
    by (simp only: map_snd_enumerate)
  with s3 prs d show ?thesis
    unfolding r by blast
qed

lemma filter_prs_by_repos_again:
  "filter_prs_by_repos (filter (\<lambda>pr. py_in (nameWithOwner (repository pr)) repos) P) repos
     = filter_prs_by_repos P repos"
  by (simp add: filter_prs_by_repos_filter)

lemma render_user_filtered:
  "render_user w repos
     (data\<lparr>nodes := filter (\<lambda>pr. py_in (nameWithOwner (repository pr)) repos) (nodes data)\<rparr>) st
   = render_user w repos data st"
  by (simp add: render_user_def filter_prs_by_repos_again del: py_in.simps)

text \<open>
  C4. In the report of a user, every line printed is a line of decoration (header, rules,
  the no-pull-requests message, the blank line) or the title or link line of a pull
  request of the response whose \<open>nameWithOwner\<close> is a member of the configured
  repositories. Pull requests outside the set have no effect on the report at all: the
  report is the one obtained from the response with those pull requests removed.
\<close>

theorem rendered_only_from_repos:
  assumes "get_prs_for_user w username api_token = Inr data"
  shows "set (stdout (fst (report_user w (TomlArray R) api_token username st)))
           \<subseteq> set (stdout st) \<union> decoration data
             \<union> (\<Union>pr \<in> {pr \<in> set (nodes data). nameWithOwner (repository pr) \<in> set R}.
                  pr_lines pr)
         \<and> report_user w (TomlArray R) api_token username st =
             render_user w (TomlArray R)
               (data\<lparr>nodes := filter (\<lambda>pr. nameWithOwner (repository pr) \<in> set R) (nodes data)\<rparr>)
               st"
proof -
  have r: "report_user w (TomlArray R) api_token username st = render_user w (TomlArray R) data st"
    by (simp add: report_user_def assms)
  have p: "(\<lambda>pr. py_in (nameWithOwner (repository pr)) (TomlArray R))
      = (\<lambda>pr. nameWithOwner (repository pr) \<in> set R)"
    by (simp only: py_in_array)
  from render_user_lines [of w "TomlArray R" data st]
  have "set (stdout (fst (render_user w (TomlArray R) data st)))
      \<subseteq> set (stdout st) \<union> decoration data
        \<union> (\<Union>pr \<in> {pr \<in> set (nodes data). nameWithOwner (repository pr) \<in> set R}.
             pr_lines pr)"
    unfolding p lines_of_def .
  moreover from render_user_filtered [of w "TomlArray R" data st]
  have "render_user w (TomlArray R) data st =
      render_user w (TomlArray R)
        (data\<lparr>nodes := filter (\<lambda>pr. nameWithOwner (repository pr) \<in> set R) (nodes data)\<rparr>) st"
    unfolding p by (rule sym)
  ultimately show ?thesis
    unfolding r by (rule conjI)
qed

lemma lines_of_Nil: "lines_of P [] = {}"
  by (simp add: lines_of_def)

theorem rendered_only_from_repos_witness:
  "get_prs_for_user sample_world ''alice'' (TomlString ''secret'') = Inr alice_data
   \<and> nodes alice_data = [pr_old, pr_elsewhere, pr_new]
   \<and> set (stdout (fst (report_user sample_world (TomlArray [''org/repo1''])
                          (TomlString ''secret'') ''alice'' initial_state)))
       \<subseteq> decoration alice_data \<union> (pr_lines pr_old \<union> pr_lines pr_new)
   \<and> report_user sample_world (TomlArray [''org/repo1'']) (TomlString ''secret'') ''alice''
         initial_state =
       render_user sample_world (TomlArray [''org/repo1''])
         (alice_data\<lparr>nodes := [pr_old, pr_new]\<rparr>) initial_state"
proof -
  let ?P = "\<lambda>pr. nameWithOwner (repository pr) \<in> set [''org/repo1'']"
  have g: "get_prs_for_user sample_world ''alice'' (TomlString ''secret'') = Inr alice_data"
    by (simp add: get_prs_for_user_def sample_world_def)
  have n: "nodes alice_data = [pr_old, pr_elsewhere, pr_new]"
    by (simp add: alice_data_def)
  have p1: "?P pr_old" by (simp add: pr_old_def)
  have p2: "\<not> ?P pr_elsewhere" by (simp add: pr_elsewhere_def)
  have p3: "?P pr_new" by (simp add: pr_new_def)
  have f: "filter ?P [pr_old, pr_elsewhere, pr_new] = [pr_old, pr_new]"
    using p1 p2 p3 by (simp only: filter.simps if_True if_False)
  have "lines_of ?P [pr_old, pr_elsewhere, pr_new] = pr_lines pr_old \<union> pr_lines pr_new"
    using p1 p2 p3 by (simp only: lines_of_Cons lines_of_Nil if_True if_False Un_empty_right)
  then have u: "(\<Union>pr \<in> {pr \<in> set [pr_old, pr_elsewhere, pr_new]. ?P pr}. pr_lines pr)
      = pr_lines pr_old \<union> pr_lines pr_new"
    by (simp only: lines_of_def)
  have s0: "set (stdout initial_state) = {}"
    by (simp add: initial_state_def)
  note c = rendered_only_from_repos [OF g, of "[''org/repo1'']" initial_state,
      unfolded n f u s0 Un_empty_left]
  from g n c show ?thesis by blast
qed

lemma dashes_differ:
  assumes "hd s \<noteq> CHR ''-''"
  shows "replicate 80 CHR ''-'' \<noteq> s"
proof
  assume "replicate 80 CHR ''-'' = s"
  then have "hd (replicate 80 CHR ''-'') = hd s" by (rule arg_cong)
  moreover have "hd (replicate 80 CHR ''-'') = CHR ''-''" by (rule hd_replicate) simp
  ultimately show False using assms by simp
qed

lemma rule_not_dashes:
  "replicate 80 CHR ''-''
     \<notin> {OKBLUE @ s @ ENDC, replicate 80 CHR ''='', ''No pull requests!''}"
proof -
  have "hd (OKBLUE @ s @ ENDC) \<noteq> CHR ''-''" by (simp add: OKBLUE_def)
  then have a: "replicate 80 CHR ''-'' \<noteq> OKBLUE @ s @ ENDC" by (rule dashes_differ)
  have "hd (replicate 80 CHR ''='') = CHR ''=''" by (rule hd_replicate) simp
  then have "hd (replicate 80 CHR ''='') \<noteq> CHR ''-''" by simp
  then have b: "replicate 80 CHR ''-'' \<noteq> replicate 80 CHR ''=''" by (rule dashes_differ)
  have "hd ''No pull requests!'' \<noteq> CHR ''-''" by simp
  then have c: "replicate 80 CHR ''-'' \<noteq> ''No pull requests!''" by (rule dashes_differ)
  from a b c show ?thesis by blast
qed

text \<open>
  C5. When none of the pull requests fetched for a user is in a configured repository
  (the filtered list is empty), the report of that user is the header, the rule of
  \<open>=\<close> signs under it and the line \<open>No pull requests!\<close>, and nothing else: no title,
  no link, and no separator line of dashes.
\<close>

theorem no_pull_requests_report:
  assumes "get_prs_for_user w username api_token = Inr data"
    and "filter_prs_by_repos (nodes data) repos = []"
  shows "report_user w repos api_token username st =
           (st\<lparr>stdout := stdout st @
                 [OKBLUE @ format_name (name data) @ ENDC, replicate 80 CHR ''='',
                  ''No pull requests!'']\<rparr>,
            Return ())
         \<and> replicate 80 CHR ''-''
             \<notin> {OKBLUE @ format_name (name data) @ ENDC, replicate 80 CHR ''='',
                 ''No pull requests!''}"
proof -
  have "report_user w repos api_token username st =
      (st\<lparr>stdout := stdout st @
            [OKBLUE @ format_name (name data) @ ENDC, replicate 80 CHR ''='',
             ''No pull requests!'']\<rparr>,
       Return ())"
    by (simp add: report_user_def render_user_def assms print_out_def
        no_pull_requests_message_def)
  then show ?thesis using rule_not_dashes [of "format_name (name data)"] by (rule conjI)
qed

theorem no_pull_requests_report_witness:
  "get_prs_for_user sample_world ''alice'' (TomlString ''secret'') = Inr alice_data
   \<and> filter_prs_by_repos (nodes alice_data) (TomlArray [''org/none'']) = []
   \<and> stdout (fst (report_user sample_world (TomlArray [''org/none'']) (TomlString ''secret'')
                     ''alice'' initial_state)) =
       [OKBLUE @ ''Alice'' @ ENDC, replicate 80 CHR ''='', ''No pull requests!'']"
proof -
  have g: "get_prs_for_user sample_world ''alice'' (TomlString ''secret'') = Inr alice_data"
    by (simp add: get_prs_for_user_def sample_world_def)
  have f: "filter_prs_by_repos (nodes alice_data) (TomlArray [''org/none'']) = []"
    by (simp add: alice_data_def pr_old_def pr_elsewhere_def pr_new_def)
  from no_pull_requests_report [OF g f, of initial_state]
  have "stdout (fst (report_user sample_world (TomlArray [''org/none'']) (TomlString ''secret'')
                     ''alice'' initial_state)) =
       [OKBLUE @ ''Alice'' @ ENDC, replicate 80 CHR ''='', ''No pull requests!'']"
    by (simp add: initial_state_def alice_data_def)
  with g f show ?thesis by blast
qed

end
